theory Spec2Isabelle
  imports Complex_Main "HOL-Library.AList"
begin

section \<open>Data model of \<open>profiler.py\<close>\<close>

text \<open>
  Python floats (timestamps and durations) are idealised as \<open>real\<close>; keyword arguments
  (\<open>**metadata\<close>) are an insertion-ordered list of key/value pairs over an arbitrary value
  type \<open>'v\<close>.
\<close>

type_synonym 'v kwargs = "(string \<times> 'v) list"

record 'v TimingRecord =
  name :: string
  start_time :: real
  end_time :: real
  duration :: real
  metadata :: "'v kwargs"

text \<open>The dictionary built by \<open>TimingRecord.to_dict\<close> (keys suffixed where they clash).\<close>

record 'v record_dict =
  name_d :: string
  start_time_d :: string
  end_time_d :: string
  duration_seconds :: real
  metadata_d :: "'v kwargs"

record 'v Profiler =
  enabled :: bool
  records :: "'v TimingRecord list"
  stack :: "string list"

text \<open>\<open>Profiler.__init__\<close>.\<close>

definition Profiler_init :: "bool \<Rightarrow> 'v Profiler" where
  "Profiler_init en = \<lparr>enabled = en, records = [], stack = []\<rparr>"

text \<open>The value of one entry of the dictionary returned by \<open>get_stats\<close>.\<close>

record op_stats =
  total_v :: real
  count_v :: nat
  avg_v :: real
  min_v :: real
  max_v :: real

text \<open>The accumulator entry \<open>{"total", "count", "records"}\<close> of \<open>print_summary\<close>.\<close>

record 'v op_acc =
  acc_total :: real
  acc_count :: nat
  acc_records :: "'v TimingRecord list"

text \<open>
  What \<open>print_summary\<close> prints, as data: the grand total, one row per top-level operation,
  the slowest individual records and the checkpoints. Number formatting is not modelled.
\<close>

record op_row =
  row_name :: string
  row_total :: real
  row_count :: nat
  row_avg :: real
  row_pct :: real

record 'v summary =
  summary_total_time :: real
  summary_rows :: "op_row list"
  summary_slowest :: "(string \<times> real \<times> 'v kwargs option) list"
  summary_checkpoints :: "(string \<times> 'v kwargs) list"

text \<open>The object that \<open>export_json\<close> hands to \<open>json.dumps\<close>.\<close>

record 'v export_data =
  total_time :: real
  num_operations :: nat
  records_x :: "'v record_dict list"

text \<open>One value per \<open>print\<close> call site of the module.\<close>

datatype 'v notice =
    LongOperation string real "'v kwargs"
  | CheckpointNotice string "'v kwargs"
  | NoTimingData
  | SummaryReport "'v summary"
  | ExportedTo string

text \<open>
  The state the module runs in. \<open>Profiler\<close> objects live in \<open>heap\<close> and are referred to
  by address (\<open>next_ref\<close> is the next unallocated one); \<open>global_profiler\<close> is the module
  variable \<open>_global_profiler\<close>. The wall clock is the sequence \<open>clock\<close> of values that
  successive calls of \<open>time.time()\<close> return, \<open>reads\<close> counting the calls made so far.
  \<open>fromtimestamp_iso\<close> stands for \<open>datetime.fromtimestamp(t).isoformat()\<close> of the
  platform, \<open>files\<close> for the file system and \<open>out\<close> for standard output.
\<close>

record 'v world =
  heap :: "nat \<Rightarrow> 'v Profiler"
  next_ref :: nat
  global_profiler :: "nat option"
  clock :: "nat \<Rightarrow> real"
  reads :: nat
  fromtimestamp_iso :: "real \<Rightarrow> string"
  files :: "string \<Rightarrow> 'v export_data option"
  out :: "'v notice list"

text \<open>
  Exceptions: \<open>IndexError\<close> is what \<open>list.pop\<close> raises on an empty list; \<open>Raised e\<close> is any
  failure \<open>e\<close> of caller-supplied code.
\<close>

datatype 'e pyexc = IndexError | Raised 'e

text \<open>A block of caller code: it runs in the world and returns normally or fails.\<close>

type_synonym ('v, 'e, 'a) block = "'v world \<Rightarrow> ('e pyexc + 'a) \<times> 'v world"

section \<open>Builtins used by the module\<close>

text \<open>\<open>sep.join(xs)\<close>.\<close>

fun join :: "string \<Rightarrow> string list \<Rightarrow> string" where
  "join sep [] = []"
| "join sep [x] = x"
| "join sep (x # y # ys) = x @ sep @ join sep (y # ys)"

text \<open>\<open>s.startswith(p)\<close> and \<open>sub in s\<close>.\<close>

definition startswith :: "string \<Rightarrow> string \<Rightarrow> bool" where
  "startswith s p = (take (length p) s = p)"

fun py_in :: "string \<Rightarrow> string \<Rightarrow> bool" where
  "py_in sub [] = (sub = [])"
| "py_in sub (c # cs) = (startswith (c # cs) sub \<or> py_in sub cs)"

text \<open>
  \<open>s.split(sep)\<close> for a non-empty separator, scanning from the left; \<open>cur\<close> is the piece
  being read. (Python raises \<open>ValueError\<close> on an empty separator; the module only splits
  at \<open>" > "\<close>, and with an empty separator this function returns the whole string.)
\<close>

function split_from :: "string \<Rightarrow> string \<Rightarrow> string \<Rightarrow> string list" where
  "split_from sep cur s =
     (if s = [] then [cur]
      else if sep \<noteq> [] \<and> startswith s sep
        then cur # split_from sep [] (drop (length sep) s)
      else split_from sep (cur @ [hd s]) (tl s))"
  by pat_completeness auto
termination
  by (relation "measure (\<lambda>(sep, cur, s). length s)") auto

declare split_from.simps [simp del]

definition split :: "string \<Rightarrow> string \<Rightarrow> string list" where
  "split s sep = split_from sep [] s"

text \<open>\<open>xs[:n]\<close> for an integer \<open>n\<close>: a negative bound counts from the end.\<close>

definition slice_to :: "'a list \<Rightarrow> int \<Rightarrow> 'a list" where
  "slice_to xs n =
     (if 0 \<le> n then take (nat n) xs else take (length xs - nat (- n)) xs)"

text \<open>
  \<open>round(x, ndigits)\<close> on the idealised reals: the nearest multiple of \<open>10 ^ - ndigits\<close>,
  a tie going to the even one.
\<close>

definition round_half_even :: "real \<Rightarrow> int" where
  "round_half_even x =
     (let f = \<lfloor>x\<rfloor>; d = x - of_int f
      in if d < 1 / 2 then f else if 1 / 2 < d then f + 1
         else if even f then f else f + 1)"

definition py_round :: "real \<Rightarrow> nat \<Rightarrow> real" where
  "py_round x ndigits = of_int (round_half_even (x * 10 ^ ndigits)) / 10 ^ ndigits"

text \<open>\<open>max(xs)\<close> of a non-empty list (\<open>min\<close> is \<open>min_list\<close>).\<close>

fun max_list :: "real list \<Rightarrow> real" where
  "max_list (x # xs) = (case xs of [] \<Rightarrow> x | _ \<Rightarrow> max x (max_list xs))"
| "max_list [] = 0"

text \<open>\<open>time.time()\<close>: the next clock value.\<close>

definition time_time :: "'v world \<Rightarrow> real \<times> 'v world" where
  "time_time w = (clock w (reads w), w\<lparr>reads := Suc (reads w)\<rparr>)"

section \<open>\<open>TimingRecord.to_dict\<close>\<close>

definition to_dict :: "(real \<Rightarrow> string) \<Rightarrow> 'v TimingRecord \<Rightarrow> 'v record_dict" where
  "to_dict isoformat r =
     \<lparr>name_d = name r,
      start_time_d = isoformat (start_time r),
      end_time_d = isoformat (end_time r),
      duration_seconds = py_round (duration r) 3,
      metadata_d = metadata r\<rparr>"

section \<open>\<open>Profiler.time\<close>\<close>

text \<open>
  \<open>time\<close> is a generator-based context manager. \<open>with self.time(name, **metadata): block\<close>
  runs the generator up to its \<open>yield\<close> (\<open>time_enter\<close>), then the block, then resumes the
  generator (\<open>time_exit\<close>), by \<open>next\<close> after a normal end of the block and by \<open>throw\<close> after
  a failure. A \<open>frame\<close> is the suspended generator: \<open>Passthrough\<close> at the \<open>yield\<close> of the
  disabled branch, \<open>Timing self full_name start metadata\<close> at the \<open>yield\<close> inside \<open>try\<close>,
  with its local variables.
\<close>

datatype 'v frame =
    Passthrough
  | Timing nat string real "'v kwargs"

definition time_enter :: "nat \<Rightarrow> string \<Rightarrow> 'v kwargs \<Rightarrow> 'v world \<Rightarrow> 'v frame \<times> 'v world" where
  "time_enter self nm md w =
     (let p = heap w self in
      if \<not> enabled p then (Passthrough, w)
      else
        let full_name = (if stack p \<noteq> [] then join '' > '' (stack p @ [nm]) else nm);
            w1 = w\<lparr>heap := (heap w)(self := p\<lparr>stack := stack p @ [nm]\<rparr>)\<rparr>;
            (start, w2) = time_time w1
        in (Timing self full_name start md, w2))"

text \<open>
  The \<open>finally\<close> clause. It does not look at how the block ended. \<open>self._stack.pop()\<close>
  raises \<open>IndexError\<close> on an empty stack, after the record has been appended; that
  exception then replaces whatever the block raised.
\<close>

definition time_exit :: "'v frame \<Rightarrow> 'v world \<Rightarrow> 'e pyexc option \<times> 'v world" where
  "time_exit fr w =
     (case fr of
        Passthrough \<Rightarrow> (None, w)
      | Timing self full_name start md \<Rightarrow>
          let (end, w1) = time_time w;
              dur = end - start;
              record = \<lparr>name = full_name, start_time = start, end_time = end,
                        duration = dur, metadata = md\<rparr>;
              p = heap w1 self;
              p1 = p\<lparr>records := records p @ [record]\<rparr>;
              w2 = w1\<lparr>heap := (heap w1)(self := p1)\<rparr>
          in if stack p1 = [] then (Some IndexError, w2)
             else
               let w3 = w2\<lparr>heap := (heap w2)(self := p1\<lparr>stack := butlast (stack p1)\<rparr>)\<rparr>
               in if 5 < dur
                  then (None, w3\<lparr>out := out w3 @ [LongOperation full_name dur md]\<rparr>)
                  else (None, w3))"

definition time :: "nat \<Rightarrow> string \<Rightarrow> 'v kwargs \<Rightarrow> ('v, 'e, 'a) block \<Rightarrow> ('v, 'e, 'a) block" where
  "time self nm md block w =
     (let (fr, w1) = time_enter self nm md w;
          (res, w2) = block w1;
          (err, w3) = time_exit fr w2
      in case err of Some e \<Rightarrow> (Inl e, w3) | None \<Rightarrow> (res, w3))"

text \<open>\<open>Profiler.track\<close>: the decorated function \<open>func\<close>, of name \<open>func_name\<close>.\<close>

definition track :: "nat \<Rightarrow> string \<Rightarrow> ('v, 'e, 'a) block \<Rightarrow> ('v, 'e, 'a) block" where
  "track self func_name func = time self func_name [] func"

section \<open>\<open>Profiler.checkpoint\<close>\<close>

definition checkpoint :: "nat \<Rightarrow> string \<Rightarrow> 'v kwargs \<Rightarrow> ('v, 'e, unit) block" where
  "checkpoint self nm md w =
     (let p = heap w self in
      if \<not> enabled p then (Inr (), w)
      else
        let (t1, w1) = time_time w;
            (t2, w2) = time_time w1;
            record = \<lparr>name = ''CHECKPOINT: '' @ nm, start_time = t1, end_time = t2,
                      duration = 0, metadata = md\<rparr>;
            p' = heap w2 self;
            w3 = w2\<lparr>heap := (heap w2)(self := p'\<lparr>records := records p' @ [record]\<rparr>)\<rparr>
        in (Inr (), w3\<lparr>out := out w3 @ [CheckpointNotice nm md]\<rparr>))"

section \<open>\<open>Profiler.get_stats\<close>\<close>

text \<open>
  \<open>record.name.split(" > ")[0]\<close>. The list that \<open>split\<close> returns is never empty
  (\<open>split_nonempty\<close> below), so the index \<open>0\<close> is always in range.
\<close>

definition top_level_of :: "string \<Rightarrow> string" where
  "top_level_of nm = hd (split nm '' > '')"

text \<open>
  The first loop of \<open>get_stats\<close>. A Python dictionary keeps its keys in insertion order, as
  \<open>AList.update\<close> does: an existing key is updated in place, a new one is added at the end.
\<close>

definition stats_step ::
  "'v TimingRecord \<Rightarrow> (string \<times> real list) list \<Rightarrow> (string \<times> real list) list" where
  "stats_step record by_operation =
     (if py_in ''CHECKPOINT'' (name record) then by_operation
      else
        let top_level = top_level_of (name record);
            durations = (case map_of by_operation top_level of None \<Rightarrow> [] | Some ds \<Rightarrow> ds)
        in AList.update top_level (durations @ [duration record]) by_operation)"

definition stats_by_operation :: "'v TimingRecord list \<Rightarrow> (string \<times> real list) list" where
  "stats_by_operation rs = fold stats_step rs []"

text \<open>
  Every list of \<open>by_operation\<close> has an element (\<open>stats_groups_nonempty\<close> below), so the
  division, \<open>min\<close> and \<open>max\<close> of the second loop never fail.
\<close>

definition stats_entry :: "real list \<Rightarrow> op_stats" where
  "stats_entry durations =
     \<lparr>total_v = sum_list durations,
      count_v = length durations,
      avg_v = sum_list durations / real (length durations),
      min_v = min_list durations,
      max_v = max_list durations\<rparr>"

definition get_stats :: "'v Profiler \<Rightarrow> (string \<times> op_stats) list" where
  "get_stats p =
     (if records p = [] then []
      else map (\<lambda>(op, durations). (op, stats_entry durations))
             (stats_by_operation (records p)))"

section \<open>\<open>Profiler.print_summary\<close>\<close>

definition summary_total :: "'v TimingRecord list \<Rightarrow> real" where
  "summary_total rs =
     sum_list (map duration (filter (\<lambda>r. \<not> py_in ''CHECKPOINT'' (name r)) rs))"

definition summary_step ::
  "'v TimingRecord \<Rightarrow> (string \<times> 'v op_acc) list \<Rightarrow> (string \<times> 'v op_acc) list" where
  "summary_step record by_operation =
     (if py_in ''CHECKPOINT'' (name record) then by_operation
      else
        let top_level = top_level_of (name record);
            d = (case map_of by_operation top_level of
                   None \<Rightarrow> \<lparr>acc_total = 0, acc_count = 0, acc_records = []\<rparr>
                 | Some d \<Rightarrow> d)
        in AList.update top_level
             \<lparr>acc_total = acc_total d + duration record,
              acc_count = Suc (acc_count d),
              acc_records = acc_records d @ [record]\<rparr> by_operation)"

definition summary_by_operation :: "'v TimingRecord list \<Rightarrow> (string \<times> 'v op_acc) list" where
  "summary_by_operation rs = fold summary_step rs []"

text \<open>\<open>sorted\<close> is stable, as \<open>sort_key\<close> is.\<close>

definition summary_operations :: "'v TimingRecord list \<Rightarrow> int \<Rightarrow> op_row list" where
  "summary_operations rs top_n =
     (let sorted_ops = sort_key (\<lambda>x. - acc_total (snd x)) (summary_by_operation rs)
      in map (\<lambda>(op_name, data).
               let total = acc_total data;
                   count = acc_count data;
                   avg = (if 0 < count then total / real count else 0);
                   pct = (if 0 < summary_total rs then total / summary_total rs * 100 else 0)
               in \<lparr>row_name = op_name, row_total = total, row_count = count,
                   row_avg = avg, row_pct = pct\<rparr>)
           (slice_to sorted_ops top_n))"

definition summary_slowest_of ::
  "'v TimingRecord list \<Rightarrow> (string \<times> real \<times> 'v kwargs option) list" where
  "summary_slowest_of rs =
     (let all_records = filter (\<lambda>r. \<not> py_in ''CHECKPOINT'' (name r)) rs;
          slowest = take 10 (sort_key (\<lambda>x. - duration x) all_records)
      in map (\<lambda>record.
               (if length (name record) \<le> 57 then name record
                else take 54 (name record) @ ''...'',
                duration record,
                if metadata record \<noteq> [] then Some (metadata record) else None))
           slowest)"

definition summary_checkpoints_of :: "'v TimingRecord list \<Rightarrow> (string \<times> 'v kwargs) list" where
  "summary_checkpoints_of rs =
     map (\<lambda>cp. (name cp, metadata cp)) (filter (\<lambda>r. py_in ''CHECKPOINT'' (name r)) rs)"

definition print_summary :: "nat \<Rightarrow> int \<Rightarrow> 'v world \<Rightarrow> 'v world" where
  "print_summary self top_n w =
     (let rs = records (heap w self) in
      if rs = [] then w\<lparr>out := out w @ [NoTimingData]\<rparr>
      else w\<lparr>out := out w @
             [SummaryReport
                \<lparr>summary_total_time = summary_total rs,
                 summary_rows = summary_operations rs top_n,
                 summary_slowest = summary_slowest_of rs,
                 summary_checkpoints = summary_checkpoints_of rs\<rparr>]\<rparr>)"

section \<open>\<open>Profiler.export_json\<close>\<close>

text \<open>
  The file is modelled as holding the object itself; its rendering by \<open>json.dumps\<close> is
  not modelled.
\<close>

definition export_json_data :: "(real \<Rightarrow> string) \<Rightarrow> 'v Profiler \<Rightarrow> 'v export_data" where
  "export_json_data isoformat p =
     \<lparr>total_time = sum_list (map duration (records p)),
      num_operations = length (records p),
      records_x = map (to_dict isoformat) (records p)\<rparr>"

definition export_json :: "nat \<Rightarrow> string \<Rightarrow> 'v world \<Rightarrow> 'v world" where
  "export_json self filepath w =
     (let data = export_json_data (fromtimestamp_iso w) (heap w self)
      in w\<lparr>files := (files w)(filepath \<mapsto> data), out := out w @ [ExportedTo filepath]\<rparr>)"

section \<open>The module-level recorder\<close>

text \<open>\<open>Profiler(enabled=en)\<close>: a new object at the next free address.\<close>

definition new_Profiler :: "bool \<Rightarrow> 'v world \<Rightarrow> nat \<times> 'v world" where
  "new_Profiler en w =
     (next_ref w,
      w\<lparr>heap := (heap w)(next_ref w := Profiler_init en), next_ref := Suc (next_ref w)\<rparr>)"

definition get_profiler :: "'v world \<Rightarrow> nat \<times> 'v world" where
  "get_profiler w =
     (case global_profiler w of
        None \<Rightarrow> (let (r, w1) = new_Profiler True w in (r, w1\<lparr>global_profiler := Some r\<rparr>))
      | Some r \<Rightarrow> (r, w))"

definition enable_profiling :: "'v world \<Rightarrow> 'v world" where
  "enable_profiling w = (let (r, w1) = new_Profiler True w in w1\<lparr>global_profiler := Some r\<rparr>)"

text \<open>\<open>if _global_profiler:\<close> tests for \<open>None\<close>: a \<open>Profiler\<close> object is always true.\<close>

definition disable_profiling :: "'v world \<Rightarrow> 'v world" where
  "disable_profiling w =
     (case global_profiler w of
        None \<Rightarrow> w
      | Some r \<Rightarrow> w\<lparr>heap := (heap w)(r := (heap w r)\<lparr>enabled := False\<rparr>)\<rparr>)"

text \<open>
  \<open>with time_block(name, **metadata): block\<close>; and the module-level \<open>checkpoint\<close>,
  \<open>print_summary\<close> and \<open>export_json\<close> (suffixed, their names being those of the methods).
\<close>

definition time_block :: "string \<Rightarrow> 'v kwargs \<Rightarrow> ('v, 'e, 'a) block \<Rightarrow> ('v, 'e, 'a) block" where
  "time_block nm md block w = (let (r, w1) = get_profiler w in time r nm md block w1)"

definition checkpoint_m :: "string \<Rightarrow> 'v kwargs \<Rightarrow> ('v, 'e, unit) block" where
  "checkpoint_m nm md w = (let (r, w1) = get_profiler w in checkpoint r nm md w1)"

definition print_summary_m :: "int \<Rightarrow> 'v world \<Rightarrow> 'v world" where
  "print_summary_m top_n w = (let (r, w1) = get_profiler w in print_summary r top_n w1)"

definition export_json_m :: "string \<Rightarrow> 'v world \<Rightarrow> 'v world" where
  "export_json_m filepath w = (let (r, w1) = get_profiler w in export_json r filepath w1)"

text \<open>The state of a freshly imported module: no recorder yet, nothing printed.\<close>

definition initial_world :: "(nat \<Rightarrow> real) \<Rightarrow> (real \<Rightarrow> string) \<Rightarrow> 'v world" where
  "initial_world clk isoformat =
     \<lparr>heap = (\<lambda>_. Profiler_init True), next_ref = 0, global_profiler = None,
      clock = clk, reads = 0, fromtimestamp_iso = isoformat, files = (\<lambda>_. None), out = []\<rparr>"

section \<open>Sequences of scope entries and exits\<close>

text \<open>
  A run of caller code on one recorder, seen as the sequence of its scope entries
  (\<open>__enter__\<close> of \<open>self.time(name, **metadata)\<close>) and scope exits (\<open>__exit__\<close>, with the
  exception that is passing through it, if any). The open context managers are kept
  innermost first; an exit always closes the innermost one, and an exit with no scope
  open is not a run of properly paired scopes.
\<close>

datatype ('v, 'e) event =
    Enter string "'v kwargs"
  | Exit "'e option"

fun step ::
  "nat \<Rightarrow> ('v, 'e) event \<Rightarrow> 'v world \<times> 'v frame list \<Rightarrow> ('v world \<times> 'v frame list) option" where
  "step self (Enter nm md) (w, fs) =
     (let (fr, w1) = time_enter self nm md w in Some (w1, fr # fs))"
| "step self (Exit exc) (w, []) = None"
| "step self (Exit exc) (w, fr # fs) =
     (let (err :: 'e pyexc option, w1) = time_exit fr w in Some (w1, fs))"

fun run ::
  "nat \<Rightarrow> ('v, 'e) event list \<Rightarrow> 'v world \<times> 'v frame list \<Rightarrow> ('v world \<times> 'v frame list) option" where
  "run self [] st = Some st"
| "run self (ev # evs) st =
     (case step self ev st of None \<Rightarrow> None | Some st1 \<Rightarrow> run self evs st1)"

text \<open>The number of scopes entered, and of scopes closed, in a sequence.\<close>

fun entered :: "('v, 'e) event list \<Rightarrow> nat" where
  "entered [] = 0"
| "entered (Enter nm md # evs) = Suc (entered evs)"
| "entered (Exit exc # evs) = entered evs"

fun closed :: "('v, 'e) event list \<Rightarrow> nat" where
  "closed [] = 0"
| "closed (Enter nm md # evs) = closed evs"
| "closed (Exit exc # evs) = Suc (closed evs)"

section \<open>The statistics as the specification words them\<close>

text \<open>
  The specification excludes checkpoint records from the statistics, and a checkpoint
  record is one made by \<open>checkpoint\<close>, which puts the marker \<open>"CHECKPOINT: "\<close> in front of
  the name. \<open>stats_as_specified\<close> is the entry of a group under that reading, to be
  compared with what \<open>get_stats\<close> returns.
\<close>

definition marked_checkpoint :: "string \<Rightarrow> bool" where
  "marked_checkpoint nm = startswith nm ''CHECKPOINT: ''"

definition stats_as_specified :: "'v TimingRecord list \<Rightarrow> string \<Rightarrow> op_stats option" where
  "stats_as_specified rs op =
     (let ds = map duration
                 (filter (\<lambda>r. \<not> marked_checkpoint (name r) \<and> top_level_of (name r) = op) rs)
      in if ds = [] then None else Some (stats_entry ds))"

section \<open>A sample state\<close>

text \<open>
  A freshly imported module under a clock that returns \<open>0, 1, 2, \<dots>\<close>; and the same
  with one recorder, at address \<open>0\<close>, constructed by \<open>Profiler(enabled=en)\<close>.
\<close>

definition fresh_module :: "nat world" where
  "fresh_module = initial_world (\<lambda>n. real n) (\<lambda>t. [])"

definition sample_world :: "bool \<Rightarrow> nat world" where
  "sample_world en = snd (new_Profiler en fresh_module)"

text \<open>A block that does nothing and returns.\<close>

definition skip_block :: "(nat, string, unit) block" where
  "skip_block w = (Inr (), w)"

section \<open>Scoped timing on an enabled recorder\<close>

lemma sample_world_simps:
  "heap (sample_world en) 0 = Profiler_init en"
  "reads (sample_world en) = 0"
  "clock (sample_world en) = (\<lambda>n. real n)"
  by (simp_all add: sample_world_def fresh_module_def new_Profiler_def initial_world_def)

lemma time_enter_enabled:
  "enabled (heap w self) \<Longrightarrow>
     time_enter self nm md w =
       (Timing self (join '' > '' (stack (heap w self) @ [nm])) (clock w (reads w)) md,
        w\<lparr>heap := (heap w)(self := (heap w self)\<lparr>stack := stack (heap w self) @ [nm]\<rparr>),
          reads := Suc (reads w)\<rparr>)"
  by (simp add: time_enter_def time_time_def Let_def)

lemma time_enter_fields:
  assumes "enabled (heap w self)"
  shows "enabled (heap (snd (time_enter self nm md w)) self)"
    and "stack (heap (snd (time_enter self nm md w)) self) = stack (heap w self) @ [nm]"
    and "records (heap (snd (time_enter self nm md w)) self) = records (heap w self)"
    and "reads (snd (time_enter self nm md w)) = Suc (reads w)"
    and "clock (snd (time_enter self nm md w)) = clock w"
  using assms by (simp_all add: time_enter_enabled)

lemma time_exit_Timing:
  assumes "stack (heap w self) \<noteq> []"
  shows "fst (time_exit (Timing self full_name start md) w) = None"
    and "enabled (heap (snd (time_exit (Timing self full_name start md) w)) self)
           = enabled (heap w self)"
    and "stack (heap (snd (time_exit (Timing self full_name start md) w)) self)
           = butlast (stack (heap w self))"
    and "records (heap (snd (time_exit (Timing self full_name start md) w)) self)
           = records (heap w self) @
             [\<lparr>name = full_name, start_time = start, end_time = clock w (reads w),
               duration = clock w (reads w) - start, metadata = md\<rparr>]"
  using assms by (simp_all add: time_exit_def time_time_def Let_def)

lemma time_enabled:
  fixes block :: "('v, 'e, 'a) block"
  assumes en: "enabled (heap w self)"
    and blk: "block (snd (time_enter self nm md w)) = (res, w2)"
    and bal: "stack (heap w2 self) = stack (heap w self) @ [nm]"
  shows "fst (time self nm md block w) = res"
    and "enabled (heap (snd (time self nm md block w)) self) = enabled (heap w2 self)"
    and "stack (heap (snd (time self nm md block w)) self) = stack (heap w self)"
    and "records (heap (snd (time self nm md block w)) self)
           = records (heap w2 self) @
             [\<lparr>name = join '' > '' (stack (heap w self) @ [nm]),
               start_time = clock w (reads w), end_time = clock w2 (reads w2),
               duration = clock w2 (reads w2) - clock w (reads w), metadata = md\<rparr>]"
proof -
  let ?fr = "Timing self (join '' > '' (stack (heap w self) @ [nm])) (clock w (reads w)) md"
  have ent: "time_enter self nm md w = (?fr, snd (time_enter self nm md w))"
    using en by (simp add: time_enter_enabled)
  have ne: "stack (heap w2 self) \<noteq> []"
    using bal by simp
  obtain err w3 where ex: "time_exit ?fr w2 = (err :: 'e pyexc option, w3)"
    by (cases "time_exit ?fr w2 :: 'e pyexc option \<times> 'v world") auto
  have tm: "time self nm md block w = (case err of Some e \<Rightarrow> (Inl e, w3) | None \<Rightarrow> (res, w3))"
    unfolding time_def using blk ex by (subst ent) simp
  have e0: "err = None"
  proof -
    have "fst (time_exit ?fr w2 :: 'e pyexc option \<times> 'v world) = None"
      by (rule time_exit_Timing(1) [OF ne])
    then show ?thesis
      by (simp add: ex)
  qed
  show "fst (time self nm md block w) = res"
    by (simp add: tm e0)
  have w3: "snd (time self nm md block w) = snd (time_exit ?fr w2 :: 'e pyexc option \<times> 'v world)"
    by (simp add: tm e0 ex)
  show "enabled (heap (snd (time self nm md block w)) self) = enabled (heap w2 self)"
    unfolding w3 by (rule time_exit_Timing(2) [OF ne])
  show "stack (heap (snd (time self nm md block w)) self) = stack (heap w self)"
    unfolding w3 by (simp add: time_exit_Timing(3) [OF ne] bal)
  show "records (heap (snd (time self nm md block w)) self)
           = records (heap w2 self) @
             [\<lparr>name = join '' > '' (stack (heap w self) @ [nm]),
               start_time = clock w (reads w), end_time = clock w2 (reads w2),
               duration = clock w2 (reads w2) - clock w (reads w), metadata = md\<rparr>]"
    unfolding w3 by (rule time_exit_Timing(4) [OF ne])
qed


text \<open>
  C1. On an enabled recorder, for scopes \<open>a\<close> containing \<open>b\<close> containing \<open>c\<close> around a
  block that does not touch the recorder, the name stored in each record is the
  \<open>" > "\<close>-join of the scope stack at the scope's entry with the scope's name; the three
  records are appended in completion order, \<open>c\<close>'s first and \<open>a\<close>'s last. With no scope
  open at the start the names are \<open>a > b > c\<close>, \<open>a > b\<close> and \<open>a\<close>. This holds whether
  the block returns or fails.
\<close>

theorem nested_names:
  assumes en: "enabled (heap w self)"
    and quiet: "\<forall>v. heap (snd (blk v)) self = heap v self"
  shows "map name (records (heap (snd
           (time self a ma (time self b mb (time self c mc blk)) w)) self))
         = map name (records (heap w self)) @
           [join '' > '' (stack (heap w self) @ [a, b, c]),
            join '' > '' (stack (heap w self) @ [a, b]),
            join '' > '' (stack (heap w self) @ [a])]
     \<and> (stack (heap w self) = [] \<longrightarrow>
          map name (records (heap (snd
            (time self a ma (time self b mb (time self c mc blk)) w)) self))
          = map name (records (heap w self)) @
            [a @ '' > '' @ b @ '' > '' @ c, a @ '' > '' @ b, a])"
proof -
  let ?wA = "snd (time_enter self a ma w)"
  let ?wB = "snd (time_enter self b mb ?wA)"
  let ?wC = "snd (time_enter self c mc ?wB)"
  let ?s = "stack (heap w self)"
  have enA: "enabled (heap ?wA self)" and stA: "stack (heap ?wA self) = ?s @ [a]"
    and rcA: "records (heap ?wA self) = records (heap w self)"
    using time_enter_fields [OF en] by simp_all
  have enB: "enabled (heap ?wB self)" and stB: "stack (heap ?wB self) = ?s @ [a, b]"
    and rcB: "records (heap ?wB self) = records (heap w self)"
    using time_enter_fields [OF enA] stA rcA by simp_all
  have enC: "enabled (heap ?wC self)" and stC: "stack (heap ?wC self) = ?s @ [a, b, c]"
    and rcC: "records (heap ?wC self) = records (heap w self)"
    using time_enter_fields [OF enB] stB rcB by simp_all
  obtain r0 w0 where b0: "blk ?wC = (r0, w0)"
    by (cases "blk ?wC") auto
  have h0: "heap w0 self = heap ?wC self"
    using quiet b0 by (metis snd_conv)
  let ?tC = "time self c mc blk"
  obtain rC wC' where bC: "?tC ?wB = (rC, wC')"
    by (cases "?tC ?wB") auto
  have balC: "stack (heap w0 self) = stack (heap ?wB self) @ [c]"
    by (simp add: h0 stC stB)
  have fC: "enabled (heap wC' self)" "stack (heap wC' self) = ?s @ [a, b]"
    "map name (records (heap wC' self))
       = map name (records (heap w self)) @ [join '' > '' (?s @ [a, b, c])]"
    using time_enabled(2,3,4) [where block = blk, OF enB b0 balC] bC by (simp_all add: h0 enC rcC stB)
  let ?tB = "time self b mb ?tC"
  obtain rB wB' where bB: "?tB ?wA = (rB, wB')"
    by (cases "?tB ?wA") auto
  have balB: "stack (heap wC' self) = stack (heap ?wA self) @ [b]"
    by (simp add: fC(2) stA)
  have fB: "enabled (heap wB' self)" "stack (heap wB' self) = ?s @ [a]"
    "map name (records (heap wB' self))
       = map name (records (heap w self)) @
         [join '' > '' (?s @ [a, b, c]), join '' > '' (?s @ [a, b])]"
    using time_enabled(2,3,4) [where block = ?tC, OF enA bC balB] bB by (simp_all add: fC stA)
  have balA: "stack (heap wB' self) = stack (heap w self) @ [a]"
    by (simp add: fB(2))
  have fA: "map name (records (heap (snd (time self a ma ?tB w)) self))
       = map name (records (heap w self)) @
         [join '' > '' (?s @ [a, b, c]), join '' > '' (?s @ [a, b]), join '' > '' (?s @ [a])]"
    using time_enabled(4) [where block = ?tB, OF en bB balA] by (simp add: fB)
  show ?thesis
    using fA by simp
qed

theorem nested_names_witness:
  "enabled (heap (sample_world True) 0)
   \<and> (\<forall>v :: nat world. heap (snd (Inr () :: string pyexc + unit, v)) 0 = heap v 0)
   \<and> map name (records (heap (snd
        (time 0 ''A'' [] (time 0 ''B'' [] (time 0 ''C'' []
           (\<lambda>v. (Inr () :: string pyexc + unit, v)))) (sample_world True))) 0))
       = [''A > B > C'', ''A > B'', ''A'']"
proof -
  let ?blk = "\<lambda>v :: nat world. (Inr () :: string pyexc + unit, v)"
  have h1: "enabled (heap (sample_world True) 0)"
    by (simp add: sample_world_simps Profiler_init_def)
  have h2: "\<forall>v. heap (snd (?blk v)) 0 = heap v 0"
    by simp
  show ?thesis
    using h1 nested_names [where blk = ?blk, OF h1 h2, of "''A''" "[]" "''B''" "[]" "''C''" "[]"]
    by (simp add: sample_world_simps Profiler_init_def)
qed

text \<open>
  C2. On an enabled recorder, when the wrapped block of a scoped-timing call fails with
  \<open>e\<close> (leaving the scope stack as it found it), the call fails with the same \<open>e\<close>;
  exactly one record has been appended to the records the block left, holding the
  qualified name, the start and end clock values, their difference as duration and the
  metadata; and the scope stack is back to what it was before the call.
\<close>

theorem failure_propagates:
  assumes "enabled (heap w self)"
    and "block (snd (time_enter self nm md w)) = (Inl e, w2)"
    and "stack (heap w2 self) = stack (heap (snd (time_enter self nm md w)) self)"
  shows "fst (time self nm md block w) = Inl e
     \<and> records (heap (snd (time self nm md block w)) self)
         = records (heap w2 self) @
           [\<lparr>name = join '' > '' (stack (heap w self) @ [nm]),
             start_time = clock w (reads w), end_time = clock w2 (reads w2),
             duration = clock w2 (reads w2) - clock w (reads w), metadata = md\<rparr>]
     \<and> stack (heap (snd (time self nm md block w)) self) = stack (heap w self)"
proof -
  have bal: "stack (heap w2 self) = stack (heap w self) @ [nm]"
    using assms(1,3) by (simp add: time_enter_fields(2))
  show ?thesis
    using time_enabled(1,3,4) [where block = block, OF assms(1,2) bal] by simp
qed

theorem failure_propagates_witness:
  "enabled (heap (sample_world True) 0)
   \<and> fst (time 0 ''job'' [(''n'', 7)] (\<lambda>v. (Inl (Raised ''boom'') :: string pyexc + unit, v))
        (sample_world True)) = Inl (Raised ''boom'')
   \<and> records (heap (snd (time 0 ''job'' [(''n'', 7)]
        (\<lambda>v. (Inl (Raised ''boom'') :: string pyexc + unit, v)) (sample_world True))) 0)
       = [\<lparr>name = ''job'', start_time = 0, end_time = 1, duration = 1, metadata = [(''n'', 7)]\<rparr>]
   \<and> stack (heap (snd (time 0 ''job'' [(''n'', 7)]
        (\<lambda>v. (Inl (Raised ''boom'') :: string pyexc + unit, v)) (sample_world True))) 0) = []"
proof -
  let ?blk = "\<lambda>v :: nat world. (Inl (Raised ''boom'') :: string pyexc + unit, v)"
  let ?w1 = "snd (time_enter 0 ''job'' [(''n'', 7)] (sample_world True))"
  have h1: "enabled (heap (sample_world True) 0)"
    by (simp add: sample_world_simps Profiler_init_def)
  have h2: "?blk ?w1 = (Inl (Raised ''boom''), ?w1)"
    by simp
  have h3: "stack (heap ?w1 0) = stack (heap ?w1 0)"
    by simp
  have f: "reads ?w1 = 1" "clock ?w1 = (\<lambda>n. real n)" "records (heap ?w1 0) = []"
    using h1 by (simp_all add: time_enter_fields sample_world_simps Profiler_init_def)
  show ?thesis
    using h1 failure_propagates [where block = ?blk, OF h1 h2 h3]
    by (simp add: f sample_world_simps Profiler_init_def)
qed

section \<open>Disabled recorders\<close>

text \<open>
  C6. On a recorder whose \<open>enabled\<close> flag is false, a scoped-timing call is exactly the
  wrapped block: the block runs, its result or failure is what the caller gets, and the
  call itself changes nothing (no record, no stack mutation, no clock read, no output).
  A checkpoint call returns normally and leaves the whole state unchanged.
\<close>

theorem disabled_is_noop:
  fixes block :: "('v, 'e, 'a) block"
  assumes "\<not> enabled (heap w self)"
  shows "time self nm md block w = block w
     \<and> time_enter self nm md w = (Passthrough, w)
     \<and> (time_exit Passthrough w' :: 'e pyexc option \<times> 'v world) = (None, w')
     \<and> (checkpoint self nm md w :: ('e pyexc + unit) \<times> 'v world) = (Inr (), w)"
  using assms
  by (simp add: time_def time_enter_def time_exit_def checkpoint_def split: prod.splits)

theorem disabled_is_noop_witness:
  "\<not> enabled (heap (sample_world False) 0)
   \<and> time 0 ''job'' [] (\<lambda>v. (Inl (Raised ''boom'') :: string pyexc + unit, v)) (sample_world False)
       = (Inl (Raised ''boom''), sample_world False)
   \<and> checkpoint 0 ''job'' [] (sample_world False)
       = (Inr () :: string pyexc + unit, sample_world False)"
proof -
  have h: "\<not> enabled (heap (sample_world False) 0)"
    by (simp add: sample_world_simps Profiler_init_def)
  show ?thesis
    using h disabled_is_noop [where block = "\<lambda>v. (Inl (Raised ''boom'') :: string pyexc + unit, v)"
        and nm = "''job''" and md = "[]" and w' = "sample_world False", OF h]
    by simp
qed

section \<open>The scope stack follows the nesting depth\<close>

lemma run_append:
  "run self (xs @ ys) st = (case run self xs st of None \<Rightarrow> None | Some st1 \<Rightarrow> run self ys st1)"
  by (induction xs arbitrary: st) (auto split: option.splits)

lemma entered_append: "entered (xs @ ys) = entered xs + entered ys"
  by (induction xs rule: entered.induct) auto

lemma closed_append: "closed (xs @ ys) = closed xs + closed ys"
  by (induction xs rule: closed.induct) auto

text \<open>The invariant of a run on an enabled recorder.\<close>

lemma step_invariant:
  assumes st: "step self ev (w, fs) = Some (w', fs')"
    and en: "enabled (heap w self)"
    and fr: "\<forall>f \<in> set fs. \<exists>n s m. f = Timing self n s m"
    and sk: "stack (heap w self) = s0 @ xs" "length xs = length fs"
  shows "enabled (heap w' self)
     \<and> (\<forall>f \<in> set fs'. \<exists>n s m. f = Timing self n s m)
     \<and> (\<exists>xs'. stack (heap w' self) = s0 @ xs' \<and> length xs' = length fs')
     \<and> length (records (heap w' self)) = length (records (heap w self)) + closed [ev]
     \<and> length fs' + closed [ev] = length fs + entered [ev]"
proof (cases ev)
  case (Enter nm md)
  have w': "w' = snd (time_enter self nm md w)"
    and fs': "fs' = fst (time_enter self nm md w) # fs"
    using st Enter by (auto split: prod.splits)
  have f: "fst (time_enter self nm md w)
             = Timing self (join '' > '' (stack (heap w self) @ [nm])) (clock w (reads w)) md"
    using en by (simp add: time_enter_enabled)
  have "stack (heap w' self) = s0 @ (xs @ [nm])"
    using time_enter_fields(2) [OF en] sk(1) w' by simp
  then have "\<exists>xs'. stack (heap w' self) = s0 @ xs' \<and> length xs' = length fs'"
    using sk(2) fs' by (intro exI [of _ "xs @ [nm]"]) simp
  then show ?thesis
    using time_enter_fields(1,3) [OF en] fr Enter w' fs' f by simp
next
  case (Exit exc)
  then obtain f0 where fs: "fs = f0 # fs'"
    using st by (cases fs) (auto split: prod.splits)
  then obtain n s m where f0: "f0 = Timing self n s m"
    using fr by auto
  have w': "w' = snd (time_exit f0 w :: 'b pyexc option \<times> 'a world)"
    using st Exit fs by (auto split: prod.splits)
  have ne: "xs \<noteq> []" "stack (heap w self) \<noteq> []"
    using sk fs by auto
  let ?x = "time_exit (Timing self n s m) w :: 'b pyexc option \<times> 'a world"
  have x: "enabled (heap (snd ?x) self) = enabled (heap w self)"
    "stack (heap (snd ?x) self) = butlast (stack (heap w self))"
    "length (records (heap (snd ?x) self)) = Suc (length (records (heap w self)))"
    by (simp_all add: time_exit_Timing(2,3,4) [OF ne(2)])
  have "stack (heap w' self) = s0 @ butlast xs"
    using x(2) sk(1) ne(1) w' f0 by (simp add: butlast_append)
  then have "\<exists>xs'. stack (heap w' self) = s0 @ xs' \<and> length xs' = length fs'"
    using sk(2) fs by (intro exI [of _ "butlast xs"]) simp
  then show ?thesis
    using x(1,3) en fr Exit w' fs f0 by simp
qed

lemma run_invariant:
  assumes "run self evs (w, fs) = Some (w', fs')"
    and "enabled (heap w self)"
    and "\<forall>f \<in> set fs. \<exists>n s m. f = Timing self n s m"
    and "stack (heap w self) = s0 @ xs" "length xs = length fs"
  shows "enabled (heap w' self)
     \<and> (\<exists>xs'. stack (heap w' self) = s0 @ xs' \<and> length xs' = length fs')
     \<and> length (records (heap w' self)) = length (records (heap w self)) + closed evs
     \<and> length fs' + closed evs = length fs + entered evs"
  using assms
proof (induction evs arbitrary: w fs xs)
  case Nil
  then show ?case by auto
next
  case (Cons ev evs)
  from Cons.prems(1) obtain w1 fs1 where s1: "step self ev (w, fs) = Some (w1, fs1)"
    and r1: "run self evs (w1, fs1) = Some (w', fs')"
    by (auto split: option.splits)
  from step_invariant [OF s1 Cons.prems(2,3,4,5)]
  obtain xs1 where i1: "enabled (heap w1 self)"
      "\<forall>f \<in> set fs1. \<exists>n s m. f = Timing self n s m"
      "stack (heap w1 self) = s0 @ xs1" "length xs1 = length fs1"
      "length (records (heap w1 self)) = length (records (heap w self)) + closed [ev]"
      "length fs1 + closed [ev] = length fs + entered [ev]"
    by blast
  from Cons.IH [OF r1 i1(1,2,3,4)] i1(5,6)
  have "enabled (heap w' self)
     \<and> (\<exists>xs'. stack (heap w' self) = s0 @ xs' \<and> length xs' = length fs')
     \<and> length (records (heap w' self)) = length (records (heap w self)) + (closed [ev] + closed evs)
     \<and> length fs' + (closed [ev] + closed evs) = length fs + (entered [ev] + entered evs)"
    by auto
  then show ?case
    using closed_append [of "[ev]" evs] entered_append [of "[ev]" evs] by simp
qed

text \<open>
  C7. On an enabled recorder, along any sequence of properly paired scope entries and
  exits, after every prefix of the sequence the number of open scopes is the number of
  entries minus the number of exits so far, and the scope stack is longer than at the
  start by exactly that number; an exit caused by a failure counts like any other. Once
  every scope is closed, the record list has grown by the number of scopes entered and
  the scope stack is what it was at the start (empty, for a recorder with no scope open).
\<close>

theorem stack_tracks_depth:
  assumes en: "enabled (heap w self)"
    and rn: "run self evs (w, []) = Some (w', fs')"
  shows "(\<forall>k \<le> length evs. \<exists>wk fk.
            run self (take k evs) (w, []) = Some (wk, fk)
            \<and> length fk + closed (take k evs) = entered (take k evs)
            \<and> length (stack (heap wk self)) = length (stack (heap w self)) + length fk)
     \<and> (fs' = [] \<longrightarrow>
          closed evs = entered evs
          \<and> length (records (heap w' self)) = length (records (heap w self)) + entered evs
          \<and> stack (heap w' self) = stack (heap w self))"
proof (intro conjI allI impI)
  fix k assume "k \<le> length evs"
  have "run self (take k evs @ drop k evs) (w, []) = Some (w', fs')"
    using rn by simp
  then obtain wk fk where rk: "run self (take k evs) (w, []) = Some (wk, fk)"
    unfolding run_append by (auto split: option.splits)
  from run_invariant [OF rk en, of "stack (heap w self)" "[]"]
  show "\<exists>wk fk. run self (take k evs) (w, []) = Some (wk, fk)
            \<and> length fk + closed (take k evs) = entered (take k evs)
            \<and> length (stack (heap wk self)) = length (stack (heap w self)) + length fk"
    using rk by auto
next
  assume e: "fs' = []"
  from run_invariant [OF rn en, of "stack (heap w self)" "[]"] e
  show "closed evs = entered evs"
    and "length (records (heap w' self)) = length (records (heap w self)) + entered evs"
    and "stack (heap w' self) = stack (heap w self)"
    by auto
qed

theorem stack_tracks_depth_witness:
  "enabled (heap (sample_world True) 0)
   \<and> (\<exists>w'. run 0 [Enter ''A'' [], Enter ''B'' [], Exit (Some ''boom''), Exit None,
                   Enter ''C'' [], Exit None] (sample_world True, []) = Some (w', [])
          \<and> length (records (heap w' 0)) = 3 \<and> stack (heap w' 0) = [])
   \<and> (\<exists>wk fk. run 0 [Enter ''A'' [], Enter ''B'' [] :: (nat, string) event] (sample_world True, [])
                  = Some (wk, fk)
          \<and> length fk = 2 \<and> length (stack (heap wk 0)) = 2)"
proof -
  let ?evs = "[Enter ''A'' [], Enter ''B'' [], Exit (Some ''boom''), Exit None,
               Enter ''C'' [], Exit None] :: (nat, string) event list"
  have h1: "enabled (heap (sample_world True) 0)"
    by (simp add: sample_world_simps Profiler_init_def)
  have "\<exists>w'. run 0 ?evs (sample_world True, []) = Some (w', [])"
    by (simp add: time_enter_def time_exit_def time_time_def sample_world_simps
        Profiler_init_def Let_def)
  then obtain w' where h2: "run 0 ?evs (sample_world True, []) = Some (w', [])"
    by blast
  have s: "stack (heap (sample_world True) 0) = []" "records (heap (sample_world True) 0) = []"
    by (simp_all add: sample_world_simps Profiler_init_def)
  from stack_tracks_depth [OF h1 h2]
  have a: "\<forall>k\<le>6. \<exists>wk fk. run 0 (take k ?evs) (sample_world True, []) = Some (wk, fk)
            \<and> length fk + closed (take k ?evs) = entered (take k ?evs)
            \<and> length (stack (heap wk 0)) = length fk"
    and b: "length (records (heap w' 0)) = 3" "stack (heap w' 0) = []"
    by (simp_all add: s)
  from a have "\<exists>wk fk. run 0 (take 2 ?evs) (sample_world True, []) = Some (wk, fk)
            \<and> length fk + closed (take 2 ?evs) = entered (take 2 ?evs)
            \<and> length (stack (heap wk 0)) = length fk"
    by (rule allE [of _ 2]) simp
  then have c: "\<exists>wk fk. run 0 [Enter ''A'' [], Enter ''B'' [] :: (nat, string) event]
                  (sample_world True, []) = Some (wk, fk)
          \<and> length fk = 2 \<and> length (stack (heap wk 0)) = 2"
    by (auto simp add: numeral_2_eq_2)
  show ?thesis
    using h1 h2 b c by blast
qed

section \<open>Statistics extraction\<close>

lemma split_from_nonempty: "split_from sep cur s \<noteq> []"
  by (induction sep cur s rule: split_from.induct) (subst split_from.simps, simp)

lemma split_nonempty: "split s sep \<noteq> []"
  by (simp add: split_def split_from_nonempty)

lemma split_from_no_sep:
  "\<not> py_in sep s \<Longrightarrow> split_from sep cur s = [cur @ s]"
proof (induction s arbitrary: cur)
  case Nil
  then show ?case by (subst split_from.simps) simp
next
  case (Cons c s)
  then show ?case by (subst split_from.simps) simp
qed

lemma take_append_short: "n \<le> length xs \<Longrightarrow> take n (xs @ ys) = take n xs"
  by simp

lemma startswith_longer:
  assumes a: "startswith (p @ sep @ rest) sep" and p: "p \<noteq> []"
  shows "startswith (p @ butlast sep) sep"
proof (cases "sep = []")
  case True
  then show ?thesis by (simp add: startswith_def)
next
  case False
  have l: "length sep \<le> length (p @ butlast sep)"
    using p by (cases p) simp_all
  have e: "p @ sep @ rest = (p @ butlast sep) @ (last sep # rest)"
    using False by simp
  have t: "take (length sep) (p @ butlast sep) = take (length sep) (p @ sep @ rest)"
    unfolding e by (rule take_append_short [OF l, symmetric])
  show ?thesis
    unfolding startswith_def by (rule trans [OF t a [unfolded startswith_def]])
qed

lemma split_from_first:
  "sep \<noteq> [] \<Longrightarrow> \<not> py_in sep (p @ butlast sep) \<Longrightarrow>
     hd (split_from sep cur (p @ sep @ rest)) = cur @ p"
proof (induction p arbitrary: cur)
  case Nil
  then show ?case by (subst split_from.simps) (simp add: startswith_def)
next
  case (Cons c p)
  have n: "\<not> startswith ((c # p) @ sep @ rest) sep"
    using Cons.prems(2) startswith_longer [of "c # p" sep rest] by auto
  have r: "\<not> py_in sep (p @ butlast sep)"
    using Cons.prems(2) by simp
  show ?case
    using n Cons.IH [OF Cons.prems(1) r, of "cur @ [c]"]
    by (subst split_from.simps) simp
qed

lemma top_level_of_whole: "\<not> py_in '' > '' nm \<Longrightarrow> top_level_of nm = nm"
  by (simp add: top_level_of_def split_def split_from_no_sep)

lemma top_level_of_first:
  "\<not> py_in '' > '' (p @ '' >'') \<Longrightarrow> top_level_of (p @ '' > '' @ rest) = p"
  using split_from_first [of "'' > ''" p "[]" rest]
  by (simp add: top_level_of_def split_def)

lemma stats_fold_lookup:
  "map_of (fold stats_step rs acc) k =
     (let ds = map duration
                 (filter (\<lambda>r. \<not> py_in ''CHECKPOINT'' (name r) \<and> top_level_of (name r) = k) rs)
      in case map_of acc k of
           None \<Rightarrow> (if ds = [] then None else Some ds)
         | Some d0 \<Rightarrow> Some (d0 @ ds))"
proof (induction rs arbitrary: acc)
  case Nil
  then show ?case by (simp split: option.splits)
next
  case (Cons r rs)
  have "map_of (fold stats_step (r # rs) acc) k = map_of (fold stats_step rs (stats_step r acc)) k"
    by simp
  also have "\<dots> =
     (let ds = map duration
                 (filter (\<lambda>r. \<not> py_in ''CHECKPOINT'' (name r) \<and> top_level_of (name r) = k) rs)
      in case map_of (stats_step r acc) k of
           None \<Rightarrow> (if ds = [] then None else Some ds)
         | Some d0 \<Rightarrow> Some (d0 @ ds))"
    by (rule Cons.IH)
  also have "\<dots> =
     (let ds = map duration
                 (filter (\<lambda>r. \<not> py_in ''CHECKPOINT'' (name r) \<and> top_level_of (name r) = k)
                    (r # rs))
      in case map_of acc k of
           None \<Rightarrow> (if ds = [] then None else Some ds)
         | Some d0 \<Rightarrow> Some (d0 @ ds))"
    by (simp add: stats_step_def update_conv' Let_def split: option.splits)
  finally show ?case .
qed

lemma stats_step_distinct:
  "distinct (map fst acc) \<Longrightarrow> distinct (map fst (stats_step r acc))"
  by (simp add: stats_step_def Let_def distinct_update)

lemma stats_fold_distinct:
  "distinct (map fst acc) \<Longrightarrow> distinct (map fst (fold stats_step rs acc))"
  by (induction rs arbitrary: acc) (simp_all add: stats_step_distinct)

lemma max_list_Max: "xs \<noteq> [] \<Longrightarrow> max_list xs = Max (set xs)"
  by (induction xs rule: induct_list012) auto

lemma stats_groups_nonempty:
  assumes "(k, ds) \<in> set (stats_by_operation rs)"
  shows "ds \<noteq> []"
proof -
  have "distinct (map fst (stats_by_operation rs))"
    by (simp add: stats_by_operation_def stats_fold_distinct)
  then have "map_of (stats_by_operation rs) k = Some ds"
    using assms by simp
  then show ?thesis
    by (auto simp add: stats_by_operation_def stats_fold_lookup Let_def split: if_splits)
qed

lemma get_stats_lookup:
  "map_of (get_stats p) k =
     (let ds = map duration
                 (filter (\<lambda>r. \<not> py_in ''CHECKPOINT'' (name r) \<and> top_level_of (name r) = k)
                    (records p))
      in if ds = [] then None
         else Some \<lparr>total_v = sum_list ds, count_v = length ds,
                    avg_v = sum_list ds / real (length ds),
                    min_v = Min (set ds), max_v = Max (set ds)\<rparr>)"
proof (cases "records p = []")
  case True
  then show ?thesis by (simp add: get_stats_def)
next
  case False
  then show ?thesis
    by (simp add: get_stats_def map_of_map stats_by_operation_def stats_fold_lookup Let_def
        stats_entry_def min_list_Min max_list_Max)
qed

lemma get_stats_distinct: "distinct (map fst (get_stats p))"
proof -
  have c: "fst \<circ> (\<lambda>(op, durations). (op, stats_entry durations)) = fst"
    by (auto simp add: fun_eq_iff)
  show ?thesis
    by (simp add: get_stats_def stats_by_operation_def stats_fold_distinct c)
qed


lemma get_stats_example: "get_stats \<lparr>enabled = en,
        records = [\<lparr>name = ''op'', start_time = s1, end_time = e1, duration = 1, metadata = m1\<rparr>,
                   \<lparr>name = ''op'', start_time = s2, end_time = e2, duration = 3, metadata = m2\<rparr>,
                   \<lparr>name = ''CHECKPOINT: x'', start_time = s3, end_time = e3, duration = 0,
                     metadata = m3\<rparr>],
        stack = st\<rparr>
     = [(''op'', \<lparr>total_v = 4, count_v = 2, avg_v = 2, min_v = 1, max_v = 3\<rparr>)]"
  by (simp add: get_stats_def stats_by_operation_def stats_step_def top_level_of_def split_def
      split_from.simps startswith_def stats_entry_def)

lemma get_stats_nested_example: "get_stats \<lparr>enabled = en,
        records = [\<lparr>name = ''fetch > parse > json'', start_time = s1, end_time = e1,
                     duration = d, metadata = m1\<rparr>],
        stack = st\<rparr>
     = [(''fetch'', \<lparr>total_v = d, count_v = 1, avg_v = d, min_v = d, max_v = d\<rparr>)]"
  by (simp add: get_stats_def stats_by_operation_def stats_step_def top_level_of_def split_def
      split_from.simps startswith_def stats_entry_def)

lemma py_in_occurrence: "py_in sub (ps @ sub @ ss)"
proof (induction ps)
  case Nil
  have "startswith (sub @ ss) sub"
    by (simp add: startswith_def)
  then show ?case
    by (cases "sub @ ss") simp_all
next
  case (Cons c ps)
  then show ?case by simp
qed

text \<open>
  C4. \<open>get_stats\<close> returns one entry per top-level operation name (no name twice); the
  entry of a name holds the sum, the number, the average, the minimum and the maximum of
  the durations of the records of that group whose name does not contain the substring
  \<open>CHECKPOINT\<close>, and a name with no such record has no entry. The top-level name of a
  record is its name up to the first \<open>" > "\<close> (the whole name when there is none). Every
  record made by \<open>checkpoint\<close> is excluded, and so is any other record whose name
  contains \<open>CHECKPOINT\<close>. A record named \<open>fetch > parse > json\<close> counts for \<open>fetch\<close>
  only; the records \<open>op\<close> (1.0), \<open>op\<close> (3.0) and \<open>CHECKPOINT: x\<close> give
  \<open>{"op": {total 4, count 2, avg 2, min 1, max 3}}\<close>; an empty record list gives the
  empty mapping.
\<close>

theorem get_stats_groups:
  "distinct (map fst (get_stats p))
   \<and> map_of (get_stats p) op =
       (let ds = map duration
                   (filter (\<lambda>r. \<not> py_in ''CHECKPOINT'' (name r) \<and> top_level_of (name r) = op)
                      (records p))
        in if ds = [] then None
           else Some \<lparr>total_v = sum_list ds, count_v = length ds,
                      avg_v = sum_list ds / real (length ds),
                      min_v = Min (set ds), max_v = Max (set ds)\<rparr>)
   \<and> (\<not> py_in '' > '' nm \<longrightarrow> top_level_of nm = nm)
   \<and> (\<not> py_in '' > '' (q @ '' >'') \<longrightarrow> top_level_of (q @ '' > '' @ rest) = q)
   \<and> py_in ''CHECKPOINT'' (''CHECKPOINT: '' @ n)
   \<and> get_stats \<lparr>enabled = en,
         records = [\<lparr>name = ''fetch > parse > json'', start_time = s1, end_time = e1,
                     duration = d, metadata = m1\<rparr>],
         stack = st\<rparr>
       = [(''fetch'', \<lparr>total_v = d, count_v = 1, avg_v = d, min_v = d, max_v = d\<rparr>)]
   \<and> get_stats \<lparr>enabled = en,
         records = [\<lparr>name = ''op'', start_time = s1, end_time = e1, duration = 1, metadata = m1\<rparr>,
                    \<lparr>name = ''op'', start_time = s2, end_time = e2, duration = 3, metadata = m2\<rparr>,
                    \<lparr>name = ''CHECKPOINT: x'', start_time = s3, end_time = e3, duration = 0,
                      metadata = m3\<rparr>],
         stack = st\<rparr>
       = [(''op'', \<lparr>total_v = 4, count_v = 2, avg_v = 2, min_v = 1, max_v = 3\<rparr>)]
   \<and> get_stats (p\<lparr>records := []\<rparr>) = []"
proof -
  have c: "py_in ''CHECKPOINT'' (''CHECKPOINT: '' @ n)"
    using py_in_occurrence [of "''CHECKPOINT''" "[]" "'': '' @ n"] by simp
  have e: "get_stats (p\<lparr>records := []\<rparr>) = []"
    by (simp add: get_stats_def)
  show ?thesis
    using get_stats_distinct [of p] get_stats_lookup [of p op] top_level_of_whole [of nm]
      top_level_of_first [of q rest] c get_stats_nested_example [of en s1 e1 d m1 st]
      get_stats_example [of en s1 e1 m1 s2 e2 m2 s3 e3 m3 st] e
    by blast
qed

theorem get_stats_groups_witness:
  "\<not> py_in '' > '' ''op'' \<and> top_level_of ''op'' = ''op''
   \<and> \<not> py_in '' > '' (''fetch'' @ '' >'')
   \<and> top_level_of (''fetch'' @ '' > '' @ ''parse > json'') = ''fetch''
   \<and> map_of (get_stats \<lparr>enabled = True,
         records = [\<lparr>name = ''op > inner'', start_time = 0, end_time = 2, duration = 2,
                     metadata = [] :: nat kwargs\<rparr>,
                    \<lparr>name = ''SAVE_CHECKPOINT'', start_time = 0, end_time = 9, duration = 9,
                     metadata = []\<rparr>],
         stack = []\<rparr>) ''op''
       = Some \<lparr>total_v = 2, count_v = 1, avg_v = 2, min_v = 2, max_v = 2\<rparr>"
proof -
  have h1: "\<not> py_in '' > '' ''op''"
    by (simp add: startswith_def)
  have h2: "\<not> py_in '' > '' (''fetch'' @ '' >'')"
    by (simp add: startswith_def)
  have t: "top_level_of ''op > inner'' = ''op''" "top_level_of ''SAVE_CHECKPOINT'' = ''SAVE_CHECKPOINT''"
    by (simp_all add: top_level_of_def split_def split_from.simps startswith_def)
  have k: "py_in ''CHECKPOINT'' ''SAVE_CHECKPOINT''" "\<not> py_in ''CHECKPOINT'' ''op > inner''"
    by (simp_all add: startswith_def)
  show ?thesis
    using h1 h2 get_stats_groups [where p = "\<lparr>enabled = True,
         records = [\<lparr>name = ''op > inner'', start_time = 0, end_time = 2, duration = 2,
                     metadata = [] :: nat kwargs\<rparr>,
                    \<lparr>name = ''SAVE_CHECKPOINT'', start_time = 0, end_time = 9, duration = 9,
                     metadata = []\<rparr>],
         stack = []\<rparr>" and op = "''op''" and nm = "''op''" and q = "''fetch''"
        and rest = "''parse > json''" and n = "''x''" and en = True and d = 1
        and ?s1.0 = 0 and ?e1.0 = 0 and ?m1.0 = "[] :: nat kwargs" and st = "[]"
        and ?s2.0 = 0 and ?e2.0 = 0 and ?m2.0 = "[] :: nat kwargs"
        and ?s3.0 = 0 and ?e3.0 = 0 and ?m3.0 = "[] :: nat kwargs"]
    by (simp add: t startswith_def)
qed

text \<open>
  The statistics are not those over the records that \<open>checkpoint\<close> did not make. A
  scope timed by \<open>time\<close> under the name \<open>SAVE_CHECKPOINT\<close> leaves one record, of duration
  1 under the sample clock; it is no checkpoint record, so as specified the group
  \<open>SAVE_CHECKPOINT\<close> has total 1 and count 1, but \<open>get_stats\<close> returns the empty mapping.
\<close>

theorem timed_scope_named_checkpoint_dropped:
  "records (heap (snd (time 0 ''SAVE_CHECKPOINT'' [] skip_block (sample_world True))) 0)
     = [\<lparr>name = ''SAVE_CHECKPOINT'', start_time = 0, end_time = 1, duration = 1, metadata = []\<rparr>]
   \<and> get_stats (heap (snd (time 0 ''SAVE_CHECKPOINT'' [] skip_block (sample_world True))) 0) = []
   \<and> map_of (get_stats (heap (snd (time 0 ''SAVE_CHECKPOINT'' [] skip_block
        (sample_world True))) 0)) ''SAVE_CHECKPOINT'' = None
   \<and> stats_as_specified
        (records (heap (snd (time 0 ''SAVE_CHECKPOINT'' [] skip_block (sample_world True))) 0))
        ''SAVE_CHECKPOINT''
       = Some \<lparr>total_v = 1, count_v = 1, avg_v = 1, min_v = 1, max_v = 1\<rparr>"
proof -
  let ?w = "sample_world True"
  let ?w1 = "snd (time_enter 0 ''SAVE_CHECKPOINT'' [] ?w)"
  let ?p = "heap (snd (time 0 ''SAVE_CHECKPOINT'' [] skip_block ?w)) 0"
  have en: "enabled (heap ?w 0)"
    by (simp add: sample_world_simps Profiler_init_def)
  have b: "skip_block ?w1 = (Inr (), ?w1)"
    by (simp add: skip_block_def)
  have bal: "stack (heap ?w1 0) = stack (heap ?w 0) @ [''SAVE_CHECKPOINT'']"
    by (rule time_enter_fields(2) [OF en])
  have f: "reads ?w1 = 1" "clock ?w1 = (\<lambda>n. real n)" "records (heap ?w1 0) = []"
    using en by (simp_all add: time_enter_fields sample_world_simps Profiler_init_def)
  have r: "records ?p
     = [\<lparr>name = ''SAVE_CHECKPOINT'', start_time = 0, end_time = 1, duration = 1, metadata = []\<rparr>]"
    using time_enabled(4) [where block = skip_block, OF en b bal]
    by (simp add: f sample_world_simps Profiler_init_def)
  have t: "top_level_of ''SAVE_CHECKPOINT'' = ''SAVE_CHECKPOINT''"
    by (simp add: top_level_of_def split_def split_from.simps startswith_def)
  have g: "get_stats ?p = []"
    by (simp add: get_stats_def r stats_by_operation_def stats_step_def startswith_def)
  have s: "stats_as_specified (records ?p) ''SAVE_CHECKPOINT''
       = Some \<lparr>total_v = 1, count_v = 1, avg_v = 1, min_v = 1, max_v = 1\<rparr>"
    by (simp add: r stats_as_specified_def marked_checkpoint_def startswith_def t stats_entry_def)
  show ?thesis
    using r g s by simp
qed

section \<open>Which records count as checkpoints\<close>

lemma stats_step_checkpoint: "py_in ''CHECKPOINT'' (name r) \<Longrightarrow> stats_step r acc = acc"
  by (simp add: stats_step_def)

lemma summary_step_checkpoint: "py_in ''CHECKPOINT'' (name r) \<Longrightarrow> summary_step r acc = acc"
  by (simp add: summary_step_def)

text \<open>
  C9. Checkpoint exclusion is a substring test. A record whose name contains
  \<open>CHECKPOINT\<close> anywhere, whatever made it, changes neither the grand total, nor the
  per-operation aggregation and its rows, nor the slowest-records list of
  \<open>print_summary\<close>, nor the result of \<open>get_stats\<close>: each is the same as if the record
  were not in the list. The record is listed in the checkpoints section, at its place.
\<close>

theorem checkpoint_substring_excluded:
  assumes "name r = pre @ ''CHECKPOINT'' @ post"
  shows "py_in ''CHECKPOINT'' (name r)
     \<and> summary_total (xs @ r # ys) = summary_total (xs @ ys)
     \<and> summary_by_operation (xs @ r # ys) = summary_by_operation (xs @ ys)
     \<and> summary_operations (xs @ r # ys) top_n = summary_operations (xs @ ys) top_n
     \<and> summary_slowest_of (xs @ r # ys) = summary_slowest_of (xs @ ys)
     \<and> get_stats (p\<lparr>records := xs @ r # ys\<rparr>) = get_stats (p\<lparr>records := xs @ ys\<rparr>)
     \<and> summary_checkpoints_of (xs @ r # ys)
         = summary_checkpoints_of xs @ (name r, metadata r) # summary_checkpoints_of ys"
proof -
  have c: "py_in ''CHECKPOINT'' (name r)"
    unfolding assms by (rule py_in_occurrence)
  have t: "summary_total (xs @ r # ys) = summary_total (xs @ ys)"
    using c by (simp add: summary_total_def)
  have b: "summary_by_operation (xs @ r # ys) = summary_by_operation (xs @ ys)"
    using c by (simp add: summary_by_operation_def summary_step_checkpoint)
  have o: "summary_operations (xs @ r # ys) top_n = summary_operations (xs @ ys) top_n"
    by (simp only: summary_operations_def t b)
  have s: "summary_slowest_of (xs @ r # ys) = summary_slowest_of (xs @ ys)"
    using c by (simp add: summary_slowest_of_def)
  have f: "stats_by_operation (xs @ r # ys) = stats_by_operation (xs @ ys)"
    using c by (simp add: stats_by_operation_def stats_step_checkpoint)
  have e: "stats_by_operation [r] = []"
    using c by (simp add: stats_by_operation_def stats_step_checkpoint)
  have g: "get_stats (p\<lparr>records := xs @ r # ys\<rparr>) = get_stats (p\<lparr>records := xs @ ys\<rparr>)"
  proof (cases "xs @ ys = []")
    case True
    then show ?thesis by (simp add: get_stats_def e)
  next
    case False
    then show ?thesis by (auto simp add: get_stats_def f)
  qed
  have k: "summary_checkpoints_of (xs @ r # ys)
         = summary_checkpoints_of xs @ (name r, metadata r) # summary_checkpoints_of ys"
    using c by (simp add: summary_checkpoints_of_def)
  show ?thesis
    using c t b o s g k by blast
qed

theorem checkpoint_substring_excluded_witness:
  "name (\<lparr>name = ''SAVE_CHECKPOINT'', start_time = 0, end_time = 9, duration = 9,
           metadata = [(''n'', 1)]\<rparr> :: nat TimingRecord) = ''SAVE_'' @ ''CHECKPOINT'' @ []
   \<and> summary_total [\<lparr>name = ''op'', start_time = 0, end_time = 2, duration = 2, metadata = []\<rparr>,
        \<lparr>name = ''SAVE_CHECKPOINT'', start_time = 0, end_time = 9, duration = 9,
          metadata = [(''n'', 1 :: nat)]\<rparr>] = 2
   \<and> get_stats \<lparr>enabled = True,
        records = [\<lparr>name = ''op'', start_time = 0, end_time = 2, duration = 2, metadata = []\<rparr>,
          \<lparr>name = ''SAVE_CHECKPOINT'', start_time = 0, end_time = 9, duration = 9,
            metadata = [(''n'', 1 :: nat)]\<rparr>],
        stack = []\<rparr>
       = [(''op'', \<lparr>total_v = 2, count_v = 1, avg_v = 2, min_v = 2, max_v = 2\<rparr>)]
   \<and> summary_checkpoints_of
        [\<lparr>name = ''op'', start_time = 0, end_time = 2, duration = 2, metadata = []\<rparr>,
         \<lparr>name = ''SAVE_CHECKPOINT'', start_time = 0, end_time = 9, duration = 9,
           metadata = [(''n'', 1 :: nat)]\<rparr>]
       = [(''SAVE_CHECKPOINT'', [(''n'', 1)])]"
proof -
  let ?r = "\<lparr>name = ''SAVE_CHECKPOINT'', start_time = 0, end_time = 9, duration = 9,
             metadata = [(''n'', 1)]\<rparr> :: nat TimingRecord"
  let ?o = "\<lparr>name = ''op'', start_time = 0, end_time = 2, duration = 2, metadata = []\<rparr>
             :: nat TimingRecord"
  have h: "name ?r = ''SAVE_'' @ ''CHECKPOINT'' @ []"
    by simp
  have k: "\<not> py_in ''CHECKPOINT'' ''op''"
    by (simp add: startswith_def)
  have t: "top_level_of ''op'' = ''op''"
    by (simp add: top_level_of_def split_def split_from.simps startswith_def)
  from checkpoint_substring_excluded [OF h, of "[?o]" "[]" 20
      "\<lparr>enabled = True, records = [], stack = []\<rparr>"]
  have "summary_total [?o, ?r] = summary_total [?o]"
    and "get_stats \<lparr>enabled = True, records = [?o, ?r], stack = []\<rparr>
           = get_stats \<lparr>enabled = True, records = [?o], stack = []\<rparr>"
    and "summary_checkpoints_of [?o, ?r]
           = summary_checkpoints_of [?o] @
             (''SAVE_CHECKPOINT'', [(''n'', 1)]) # summary_checkpoints_of []"
    by simp_all
  then show ?thesis
    by (simp add: summary_total_def summary_checkpoints_of_def get_stats_def
        stats_by_operation_def stats_step_def stats_entry_def startswith_def t)
qed

section \<open>Export\<close>

lemma round_half_even_near: "\<bar>real_of_int (round_half_even y) - y\<bar> \<le> 1 / 2"
proof -
  have "real_of_int \<lfloor>y\<rfloor> \<le> y" "y < real_of_int \<lfloor>y\<rfloor> + 1"
    by linarith+
  then show ?thesis
    by (auto simp add: round_half_even_def Let_def)
qed

lemma py_round_3: "\<exists>k :: int. py_round x 3 = real_of_int k / 1000 \<and> \<bar>py_round x 3 - x\<bar> \<le> 1 / 2000"
proof -
  let ?k = "round_half_even (x * 1000)"
  have n: "\<bar>real_of_int ?k - x * 1000\<bar> \<le> 1 / 2"
    by (rule round_half_even_near)
  have p: "py_round x 3 = real_of_int ?k / 1000"
    by (simp add: py_round_def)
  have "\<bar>real_of_int ?k / 1000 - x\<bar> = \<bar>real_of_int ?k - x * 1000\<bar> / 1000"
    by (simp add: field_simps abs_if)
  also have "\<dots> \<le> (1 / 2) / 1000"
    using n by (simp add: divide_right_mono)
  finally have "\<bar>py_round x 3 - x\<bar> \<le> 1 / 2000"
    by (simp add: p)
  then show ?thesis
    using p by blast
qed

lemma checkpoint_enabled:
  fixes w :: "'v world"
  assumes "enabled (heap w self)"
  shows "fst (checkpoint self nm md w :: ('e pyexc + unit) \<times> 'v world) = Inr ()"
    and "heap (snd (checkpoint self nm md w :: ('e pyexc + unit) \<times> 'v world))
           = (heap w)(self := (heap w self)\<lparr>records := records (heap w self) @
               [\<lparr>name = ''CHECKPOINT: '' @ nm, start_time = clock w (reads w),
                 end_time = clock w (Suc (reads w)), duration = 0, metadata = md\<rparr>]\<rparr>)"
  using assms by (simp_all add: checkpoint_def time_time_def Let_def)

text \<open>
  C5. The object written by \<open>export_json\<close> has as \<open>total_time\<close> the sum of the durations
  of all records, as \<open>num_operations\<close> their number, and as \<open>records\<close> the \<open>to_dict\<close>
  form of each record in the order of the record list, names unchanged and
  \<open>duration_seconds\<close> the duration rounded to 3 decimal places: a multiple of 0.001 at
  most 0.0005 away from it. Exporting does not change any recorder. A checkpoint leaves
  \<open>total_time\<close> as it is and, on an enabled recorder, adds one to \<open>num_operations\<close>.
\<close>

theorem export_json_contents:
  fixes p :: "'v Profiler" and w :: "'v world"
  shows "total_time (export_json_data f p) = sum_list (map duration (records p))
   \<and> num_operations (export_json_data f p) = length (records p)
   \<and> records_x (export_json_data f p) = map (to_dict f) (records p)
   \<and> map name_d (records_x (export_json_data f p)) = map name (records p)
   \<and> map duration_seconds (records_x (export_json_data f p))
       = map (\<lambda>r. py_round (duration r) 3) (records p)
   \<and> (\<exists>k :: int. py_round x 3 = real_of_int k / 1000 \<and> \<bar>py_round x 3 - x\<bar> \<le> 1 / 2000)
   \<and> files (export_json self path w) path
       = Some (export_json_data (fromtimestamp_iso w) (heap w self))
   \<and> heap (export_json self path w) = heap w
   \<and> total_time (export_json_data f
         (heap (snd (checkpoint self nm md w :: ('e pyexc + unit) \<times> 'v world)) self))
       = total_time (export_json_data f (heap w self))
   \<and> num_operations (export_json_data f
         (heap (snd (checkpoint self nm md w :: ('e pyexc + unit) \<times> 'v world)) self))
       = (if enabled (heap w self) then Suc (length (records (heap w self)))
          else length (records (heap w self)))"
proof -
  have a: "map name_d (map (to_dict f) rs) = map name rs"
    "map duration_seconds (map (to_dict f) rs) = map (\<lambda>r. py_round (duration r) 3) rs"
    for rs :: "'v TimingRecord list"
    by (simp_all add: to_dict_def)
  have c: "total_time (export_json_data f
         (heap (snd (checkpoint self nm md w :: ('e pyexc + unit) \<times> 'v world)) self))
       = total_time (export_json_data f (heap w self))"
    "num_operations (export_json_data f
         (heap (snd (checkpoint self nm md w :: ('e pyexc + unit) \<times> 'v world)) self))
       = (if enabled (heap w self) then Suc (length (records (heap w self)))
          else length (records (heap w self)))"
    by (simp_all add: export_json_data_def checkpoint_def time_time_def Let_def)
  have e: "files (export_json self path w) path
       = Some (export_json_data (fromtimestamp_iso w) (heap w self))"
    "heap (export_json self path w) = heap w"
    by (simp_all add: export_json_def Let_def)
  show ?thesis
    using a [of "records p"] c e py_round_3 [of x]
    by (simp add: export_json_data_def)
qed

section \<open>Checkpoints\<close>

text \<open>
  C3. \<open>checkpoint\<close> on an enabled recorder appends one record named
  \<open>"CHECKPOINT: " + name\<close> with duration 0 and leaves the scope stack alone, but it calls
  \<open>time.time()\<close> once for \<open>start_time\<close> and once more for \<open>end_time\<close>. Under a clock that
  returns 0 and then 1, the record has \<open>start_time\<close> 0 and \<open>end_time\<close> 1: the two are not
  equal, and the duration 0 is not their difference.
\<close>

theorem checkpoint_reads_clock_twice:
  "heap (snd (checkpoint 0 ''x'' [] (sample_world True)
      :: (string pyexc + unit) \<times> nat world)) 0
   = \<lparr>enabled = True,
      records = [\<lparr>name = ''CHECKPOINT: x'', start_time = 0, end_time = 1, duration = 0,
                  metadata = []\<rparr>],
      stack = []\<rparr>"
  by (simp add: checkpoint_enabled sample_world_simps Profiler_init_def)

section \<open>The module-level recorder and its controls\<close>

lemma new_Profiler_fields:
  "fst (new_Profiler en w) = next_ref w"
  "heap (snd (new_Profiler en w)) = (heap w)(next_ref w := Profiler_init en)"
  "next_ref (snd (new_Profiler en w)) = Suc (next_ref w)"
  "global_profiler (snd (new_Profiler en w)) = global_profiler w"
  "clock (snd (new_Profiler en w)) = clock w"
  "reads (snd (new_Profiler en w)) = reads w"
  by (simp_all add: new_Profiler_def)

lemma get_profiler_None:
  assumes "global_profiler w = None"
  shows "fst (get_profiler w) = next_ref w"
    and "global_profiler (snd (get_profiler w)) = Some (next_ref w)"
    and "heap (snd (get_profiler w)) = (heap w)(next_ref w := Profiler_init True)"
    and "clock (snd (get_profiler w)) = clock w"
    and "reads (snd (get_profiler w)) = reads w"
  using assms by (simp_all add: get_profiler_def new_Profiler_def)

lemma get_profiler_Some: "global_profiler w = Some r \<Longrightarrow> get_profiler w = (r, w)"
  by (simp add: get_profiler_def)

lemma fresh_module_simps:
  "global_profiler fresh_module = None"
  "next_ref fresh_module = 0"
  "reads fresh_module = 0"
  "clock fresh_module = (\<lambda>n. real n)"
  by (simp_all add: fresh_module_def initial_world_def)

text \<open>
  C8. When no module-level recorder exists, \<open>get_profiler\<close> constructs one, enabled and
  with no records, makes it the singleton and returns it; a later call returns the same
  recorder and constructs nothing. \<open>enable_profiling\<close> makes a newly constructed recorder,
  enabled and with an empty record list, the singleton, and changes no other recorder.
  \<open>disable_profiling\<close> keeps the singleton, sets its \<open>enabled\<close> flag to false and leaves
  its record list and scope stack (and every other recorder) as they are.
\<close>

theorem singleton_controls:
  "(global_profiler w = None \<longrightarrow>
        fst (get_profiler w) = next_ref w
      \<and> global_profiler (snd (get_profiler w)) = Some (next_ref w)
      \<and> heap (snd (get_profiler w)) (next_ref w) = \<lparr>enabled = True, records = [], stack = []\<rparr>
      \<and> get_profiler (snd (get_profiler w)) = (next_ref w, snd (get_profiler w)))
   \<and> (global_profiler w = Some r \<longrightarrow> get_profiler w = (r, w))
   \<and> global_profiler (enable_profiling w) = Some (next_ref w)
   \<and> heap (enable_profiling w) (next_ref w) = \<lparr>enabled = True, records = [], stack = []\<rparr>
   \<and> (\<forall>a. a \<noteq> next_ref w \<longrightarrow> heap (enable_profiling w) a = heap w a)
   \<and> (global_profiler w = Some r \<longrightarrow>
        global_profiler (disable_profiling w) = Some r
      \<and> enabled (heap (disable_profiling w) r) = False
      \<and> records (heap (disable_profiling w) r) = records (heap w r)
      \<and> stack (heap (disable_profiling w) r) = stack (heap w r)
      \<and> (\<forall>a. a \<noteq> r \<longrightarrow> heap (disable_profiling w) a = heap w a))"
proof -
  have g: "global_profiler w = None \<longrightarrow>
        fst (get_profiler w) = next_ref w
      \<and> global_profiler (snd (get_profiler w)) = Some (next_ref w)
      \<and> heap (snd (get_profiler w)) (next_ref w) = \<lparr>enabled = True, records = [], stack = []\<rparr>
      \<and> get_profiler (snd (get_profiler w)) = (next_ref w, snd (get_profiler w))"
    by (simp add: get_profiler_None get_profiler_Some Profiler_init_def)
  have e: "global_profiler (enable_profiling w) = Some (next_ref w)"
    "heap (enable_profiling w) (next_ref w) = \<lparr>enabled = True, records = [], stack = []\<rparr>"
    "\<forall>a. a \<noteq> next_ref w \<longrightarrow> heap (enable_profiling w) a = heap w a"
    by (simp_all add: enable_profiling_def new_Profiler_def Profiler_init_def)
  have d: "global_profiler w = Some r \<longrightarrow>
        global_profiler (disable_profiling w) = Some r
      \<and> enabled (heap (disable_profiling w) r) = False
      \<and> records (heap (disable_profiling w) r) = records (heap w r)
      \<and> stack (heap (disable_profiling w) r) = stack (heap w r)
      \<and> (\<forall>a. a \<noteq> r \<longrightarrow> heap (disable_profiling w) a = heap w a)"
    by (simp add: disable_profiling_def)
  show ?thesis
    using g e d get_profiler_Some [of w r] by blast
qed

theorem singleton_controls_witness:
  "global_profiler fresh_module = None
   \<and> fst (get_profiler fresh_module) = 0
   \<and> heap (snd (get_profiler fresh_module)) 0 = \<lparr>enabled = True, records = [], stack = []\<rparr>
   \<and> global_profiler (snd (get_profiler fresh_module)) = Some 0
   \<and> get_profiler (snd (get_profiler fresh_module)) = (0, snd (get_profiler fresh_module))
   \<and> enabled (heap (disable_profiling (snd (get_profiler fresh_module))) 0) = False
   \<and> global_profiler (enable_profiling (snd (get_profiler fresh_module))) = Some 1
   \<and> (0 :: nat) \<noteq> 1
   \<and> heap (enable_profiling (snd (get_profiler fresh_module))) 0
       = heap (snd (get_profiler fresh_module)) 0
   \<and> heap (disable_profiling (snd (get_profiler fresh_module))) 1
       = heap (snd (get_profiler fresh_module)) 1"
proof -
  let ?w1 = "snd (get_profiler fresh_module)"
  have h0: "global_profiler fresh_module = None"
    by (simp add: fresh_module_simps)
  have h1: "global_profiler ?w1 = Some 0"
    by (simp add: get_profiler_None(2) [OF h0] fresh_module_simps)
  have n1: "next_ref ?w1 = 1"
    by (simp add: get_profiler_def new_Profiler_def fresh_module_simps)
  have d: "(0 :: nat) \<noteq> 1" "(1 :: nat) \<noteq> 0"
    by simp_all
  from singleton_controls [of fresh_module 0] h0
  have a: "fst (get_profiler fresh_module) = 0"
    "heap ?w1 0 = \<lparr>enabled = True, records = [], stack = []\<rparr>"
    by (simp_all add: fresh_module_simps)
  from singleton_controls [of ?w1 0] h1 n1 d
  have b: "get_profiler ?w1 = (0, ?w1)"
    "enabled (heap (disable_profiling ?w1) 0) = False"
    "global_profiler (enable_profiling ?w1) = Some 1"
    "heap (enable_profiling ?w1) 0 = heap ?w1 0"
    "heap (disable_profiling ?w1) 1 = heap ?w1 1"
    by simp_all
  show ?thesis
    using h0 h1 a b by simp
qed

lemma time_first_record:
  fixes blk :: "('v, 'e, 'a) block"
  assumes h: "heap w1 r = Profiler_init True"
    and quiet: "\<forall>v. heap (snd (blk v)) r = heap v r"
  shows "map name (records (heap (snd (time r nm md blk w1)) r)) = [nm]"
    and "enabled (heap (snd (time r nm md blk w1)) r)"
proof -
  have en: "enabled (heap w1 r)"
    by (simp add: h Profiler_init_def)
  let ?w2 = "snd (time_enter r nm md w1)"
  obtain res w3 where b: "blk ?w2 = (res, w3)"
    by (cases "blk ?w2") auto
  have q: "heap w3 r = heap ?w2 r"
    using quiet b by (metis snd_conv)
  have bal: "stack (heap w3 r) = stack (heap w1 r) @ [nm]"
    by (simp add: q time_enter_fields(2) [OF en])
  have e3: "enabled (heap w3 r)"
    by (simp add: q time_enter_fields(1) [OF en])
  have r3: "records (heap w3 r) = []"
    by (simp add: q time_enter_fields(3) [OF en] h Profiler_init_def)
  show "map name (records (heap (snd (time r nm md blk w1)) r)) = [nm]"
    using time_enabled(4) [where block = blk, OF en b bal] r3
    by (simp add: h Profiler_init_def)
  show "enabled (heap (snd (time r nm md blk w1)) r)"
    using time_enabled(2) [where block = blk, OF en b bal] e3 by simp
qed

lemma time_block_Some:
  "global_profiler w1 = Some r \<Longrightarrow> time_block nm md blk w1 = time r nm md blk w1"
  by (simp add: time_block_def get_profiler_Some)

lemma print_summary_fields:
  "heap (print_summary r top_n w) = heap w"
  "global_profiler (print_summary r top_n w) = global_profiler w"
  by (simp_all add: print_summary_def Let_def)

lemma export_json_fields:
  "heap (export_json r path w) = heap w"
  "global_profiler (export_json r path w) = global_profiler w"
  by (simp_all add: export_json_def Let_def)

text \<open>
  C10. \<open>disable_profiling\<close> called while no module-level recorder exists changes nothing
  and constructs nothing. The next call of \<open>get_profiler\<close>, or of any of the free
  functions that delegate to it (\<open>time_block\<close>, \<open>checkpoint\<close>, \<open>print_summary\<close>,
  \<open>export_json\<close>), constructs an enabled recorder and makes it the singleton. So after
  such a call \<open>time_block\<close> (around a block that does not touch that recorder) and the
  module-level \<open>checkpoint\<close> each leave one record in it, also when \<open>print_summary\<close> or
  \<open>export_json\<close> was called in between.
\<close>

theorem disable_before_first_use:
  fixes blk :: "('v, 'e, 'a) block"
  assumes "global_profiler w = None"
  shows "disable_profiling w = w
     \<and> fst (get_profiler (disable_profiling w)) = next_ref w
     \<and> enabled (heap (snd (get_profiler (disable_profiling w))) (next_ref w))
     \<and> ((\<forall>v. heap (snd (blk v)) (next_ref w) = heap v (next_ref w)) \<longrightarrow>
          map name (records (heap (snd (time_block nm md blk (disable_profiling w))) (next_ref w)))
          = [nm])
     \<and> map name (records (heap (snd (checkpoint_m nm md (disable_profiling w)
          :: ('e pyexc + unit) \<times> 'v world)) (next_ref w)))
        = [''CHECKPOINT: '' @ nm]
     \<and> global_profiler (snd (checkpoint_m nm md (disable_profiling w)
          :: ('e pyexc + unit) \<times> 'v world)) = Some (next_ref w)
     \<and> enabled (heap (snd (checkpoint_m nm md (disable_profiling w)
          :: ('e pyexc + unit) \<times> 'v world)) (next_ref w))
     \<and> global_profiler (print_summary_m top_n (disable_profiling w)) = Some (next_ref w)
     \<and> heap (print_summary_m top_n (disable_profiling w)) (next_ref w)
         = \<lparr>enabled = True, records = [], stack = []\<rparr>
     \<and> global_profiler (export_json_m path (disable_profiling w)) = Some (next_ref w)
     \<and> heap (export_json_m path (disable_profiling w)) (next_ref w)
         = \<lparr>enabled = True, records = [], stack = []\<rparr>
     \<and> ((\<forall>v. heap (snd (blk v)) (next_ref w) = heap v (next_ref w)) \<longrightarrow>
          enabled (heap (snd (time_block nm md blk (disable_profiling w))) (next_ref w))
        \<and> map name (records (heap (snd (time_block nm md blk
              (print_summary_m top_n (disable_profiling w)))) (next_ref w))) = [nm]
        \<and> map name (records (heap (snd (time_block nm md blk
              (export_json_m path (disable_profiling w)))) (next_ref w))) = [nm])"
proof -
  let ?r = "next_ref w"
  let ?w1 = "snd (get_profiler w)"
  have d: "disable_profiling w = w"
    using assms by (simp add: disable_profiling_def)
  have g: "get_profiler w = (?r, ?w1)"
    using get_profiler_None(1) [OF assms] by (metis prod.collapse)
  have h: "heap ?w1 ?r = Profiler_init True"
    by (simp add: get_profiler_None(3) [OF assms])
  have gl: "global_profiler ?w1 = Some ?r"
    by (rule get_profiler_None(2) [OF assms])
  have en: "enabled (heap ?w1 ?r)"
    by (simp add: h Profiler_init_def)
  have tb: "time_block nm md blk w = time ?r nm md blk ?w1"
    unfolding time_block_def by (subst g) simp
  have cm: "(checkpoint_m nm md w :: ('e pyexc + unit) \<times> 'v world) = checkpoint ?r nm md ?w1"
    unfolding checkpoint_m_def by (subst g) simp
  have pm: "print_summary_m top_n w = print_summary ?r top_n ?w1"
    unfolding print_summary_m_def by (subst g) simp
  have em: "export_json_m path w = export_json ?r path ?w1"
    unfolding export_json_m_def by (subst g) simp
  have c: "map name (records (heap (snd (checkpoint_m nm md w
          :: ('e pyexc + unit) \<times> 'v world)) ?r)) = [''CHECKPOINT: '' @ nm]"
    "enabled (heap (snd (checkpoint_m nm md w :: ('e pyexc + unit) \<times> 'v world)) ?r)"
    by (simp_all add: cm checkpoint_enabled(2) [OF en] h Profiler_init_def)
  have cg: "global_profiler (snd (checkpoint_m nm md w :: ('e pyexc + unit) \<times> 'v world))
      = Some ?r"
    using en gl by (simp add: cm checkpoint_def time_time_def Let_def)
  have p: "global_profiler (print_summary_m top_n w) = Some ?r"
    "heap (print_summary_m top_n w) ?r = \<lparr>enabled = True, records = [], stack = []\<rparr>"
    by (simp_all add: pm print_summary_fields gl h Profiler_init_def)
  have e: "global_profiler (export_json_m path w) = Some ?r"
    "heap (export_json_m path w) ?r = \<lparr>enabled = True, records = [], stack = []\<rparr>"
    by (simp_all add: em export_json_fields gl h Profiler_init_def)
  have t: "map name (records (heap (snd (time_block nm md blk w)) ?r)) = [nm]
      \<and> enabled (heap (snd (time_block nm md blk w)) ?r)
      \<and> map name (records (heap (snd (time_block nm md blk (print_summary_m top_n w))) ?r)) = [nm]
      \<and> map name (records (heap (snd (time_block nm md blk (export_json_m path w))) ?r)) = [nm]"
    if quiet: "\<forall>v. heap (snd (blk v)) ?r = heap v ?r"
  proof -
    have hp: "heap (print_summary_m top_n w) ?r = Profiler_init True"
      by (simp add: p(2) Profiler_init_def)
    have he: "heap (export_json_m path w) ?r = Profiler_init True"
      by (simp add: e(2) Profiler_init_def)
    show ?thesis
      using time_first_record [where blk = blk, OF h quiet, of nm md]
        time_first_record(1) [where blk = blk, OF hp quiet, of nm md]
        time_first_record(1) [where blk = blk, OF he quiet, of nm md]
      by (simp add: tb time_block_Some [OF p(1)] time_block_Some [OF e(1)])
  qed
  show ?thesis
    using get_profiler_None(1) [OF assms] en t c cg p e by (simp add: d)
qed

theorem disable_before_first_use_witness:
  "global_profiler fresh_module = None
   \<and> disable_profiling fresh_module = fresh_module
   \<and> (\<forall>v :: nat world. heap (snd (Inr () :: string pyexc + unit, v)) 0 = heap v 0)
   \<and> map name (records (heap (snd (time_block ''job'' []
        (\<lambda>v. (Inr () :: string pyexc + unit, v)) (disable_profiling fresh_module))) 0))
       = [''job'']
   \<and> heap (export_json_m ''p.json'' (disable_profiling fresh_module)) 0
       = \<lparr>enabled = True, records = [], stack = []\<rparr>
   \<and> heap (print_summary_m 20 (disable_profiling fresh_module)) 0
       = \<lparr>enabled = True, records = [], stack = []\<rparr>
   \<and> map name (records (heap (snd (time_block ''job'' []
        (\<lambda>v. (Inr () :: string pyexc + unit, v))
        (export_json_m ''p.json'' (disable_profiling fresh_module)))) 0))
       = [''job'']"
proof -
  let ?blk = "\<lambda>v :: nat world. (Inr () :: string pyexc + unit, v)"
  have h0: "global_profiler fresh_module = None"
    by (simp add: fresh_module_simps)
  have q: "\<forall>v. heap (snd (?blk v)) (next_ref fresh_module) = heap v (next_ref fresh_module)"
    by simp
  from disable_before_first_use [where blk = ?blk and nm = "''job''" and md = "[]"
      and path = "''p.json''" and top_n = 20, OF h0] q
  have x: "disable_profiling fresh_module = fresh_module"
    and y: "map name (records (heap (snd (time_block ''job'' [] ?blk
              (disable_profiling fresh_module))) (next_ref fresh_module))) = [''job'']"
    and z: "heap (export_json_m ''p.json'' (disable_profiling fresh_module))
              (next_ref fresh_module) = \<lparr>enabled = True, records = [], stack = []\<rparr>"
      "heap (print_summary_m 20 (disable_profiling fresh_module))
              (next_ref fresh_module) = \<lparr>enabled = True, records = [], stack = []\<rparr>"
      "map name (records (heap (snd (time_block ''job'' [] ?blk
              (export_json_m ''p.json'' (disable_profiling fresh_module))))
              (next_ref fresh_module))) = [''job'']"
    by blast+
  show ?thesis
    using h0 x y z by (simp add: fresh_module_simps)
qed

end
